theory Spec2Isabelle
  imports Main "HOL-Library.Code_Target_Nat"
begin

section \<open>Strings\<close>

text \<open>
  JavaScript strings are modelled as HOL strings, whose characters are bytes. The case
  conversions and the regular expression class \<open>\s\<close> are those of JavaScript on ASCII
  text (chain identifiers, hexadecimal addresses, the usual token names and symbols):
  \<open>toLowerCase\<close> and \<open>toUpperCase\<close> change the 26 ASCII letters and nothing else, and
  \<open>\s\<close> is the six ASCII white space characters. Outside ASCII, JavaScript converts
  by the Unicode tables, where uppercasing can change what lowercasing gives; the theorems
  on all strings therefore keep the conversions as the program composes them, and use of
  them only that they leave a string empty or non-empty as it was and that lowercasing
  twice is lowercasing once.
\<close>

definition is_upper :: "char \<Rightarrow> bool" where
  "is_upper c = (65 \<le> (of_char c :: nat) \<and> (of_char c :: nat) \<le> 90)"

definition is_lower :: "char \<Rightarrow> bool" where
  "is_lower c = (97 \<le> (of_char c :: nat) \<and> (of_char c :: nat) \<le> 122)"

definition lower_char :: "char \<Rightarrow> char" where
  "lower_char c = (if is_upper c then char_of (of_char c + 32 :: nat) else c)"

definition upper_char :: "char \<Rightarrow> char" where
  "upper_char c = (if is_lower c then char_of (of_char c - 32 :: nat) else c)"

definition toLowerCase :: "string \<Rightarrow> string" where
  "toLowerCase s = map lower_char s"

definition toUpperCase :: "string \<Rightarrow> string" where
  "toUpperCase s = map upper_char s"

text \<open>\<open>\s\<close>: tab, line feed, vertical tab, form feed, carriage return, space.\<close>

definition is_space :: "char \<Rightarrow> bool" where
  "is_space c = ((9 \<le> (of_char c :: nat) \<and> (of_char c :: nat) \<le> 13) \<or> (of_char c :: nat) = 32)"

text \<open>
  \<open>s.replace(/\s+/g, "-")\<close>: every maximal run of white space becomes one hyphen. The
  flag says that the previous character belonged to a run already replaced.
\<close>

fun replace_runs :: "bool \<Rightarrow> string \<Rightarrow> string" where
  "replace_runs in_run [] = []"
| "replace_runs in_run (c # cs) =
     (if is_space c then (if in_run then replace_runs True cs else CHR ''-'' # replace_runs True cs)
      else c # replace_runs False cs)"

definition replace_spaces :: "string \<Rightarrow> string" where
  "replace_spaces s = replace_runs False s"

text \<open>\<open>xs.join(sep)\<close>\<close>

fun join :: "string \<Rightarrow> string list \<Rightarrow> string" where
  "join sep [] = []"
| "join sep [x] = x"
| "join sep (x # y # ys) = x @ sep @ join sep (y # ys)"

section \<open>Values\<close>

text \<open>
  The values the program handles: what \<open>JSON.parse\<close> can return, \<open>undefined\<close>, and the
  members every object inherits from \<open>Object.prototype\<close> (functions and objects that no
  payload can contain), named by the property they are found under. Of a number the
  program only ever tests whether it is zero; integers stand for all numbers. An object is
  the list of its own properties.
\<close>

datatype jsval =
    JUndefined
  | JNull
  | JBool bool
  | JNum int
  | JStr string
  | JArr "jsval list"
  | JObj "(string \<times> jsval) list"
  | JBuiltin string

datatype exn = TypeError | FetchError | SyntaxError | ContractError

fun truthy :: "jsval \<Rightarrow> bool" where
  "truthy JUndefined = False"
| "truthy JNull = False"
| "truthy (JBool b) = b"
| "truthy (JNum n) = (n \<noteq> 0)"
| "truthy (JStr s) = (s \<noteq> [])"
| "truthy (JArr xs) = True"
| "truthy (JObj kvs) = True"
| "truthy (JBuiltin k) = True"

fun nullish :: "jsval \<Rightarrow> bool" where
  "nullish JUndefined = True"
| "nullish JNull = True"
| "nullish v = False"

text \<open>\<open>a || b\<close>, for operands whose evaluation cannot throw.\<close>

definition js_or :: "jsval \<Rightarrow> jsval \<Rightarrow> jsval" where
  "js_or a b = (if truthy a then a else b)"

text \<open>
  \<open>v.k\<close> for a value \<open>v\<close> that is neither \<open>null\<close> nor \<open>undefined\<close>, and a property name
  that no prototype defines but \<open>length\<close> and \<open>find\<close>. The names the program reads from
  payloads are \<open>coins\<close>, \<open>name\<close>, \<open>symbol\<close>, \<open>logo\<close>, \<open>logo_url\<close>, \<open>id\<close>, \<open>large\<close>,
  \<open>thumb\<close>, \<open>image\<close> and the computed \<open>chain:address\<close>, which contains a colon.
\<close>

fun member_of :: "jsval \<Rightarrow> string \<Rightarrow> jsval" where
  "member_of (JObj kvs) k = (case map_of kvs k of Some v \<Rightarrow> v | None \<Rightarrow> JUndefined)"
| "member_of (JArr xs) k =
     (if k = ''length'' then JNum (int (length xs))
      else if k = ''find'' then JBuiltin ''find'' else JUndefined)"
| "member_of (JStr s) k = (if k = ''length'' then JNum (int (length s)) else JUndefined)"
| "member_of v k = JUndefined"

text \<open>\<open>v.k\<close> in general: reading a property of \<open>null\<close> or \<open>undefined\<close> throws.\<close>

definition get_prop :: "jsval \<Rightarrow> string \<Rightarrow> exn + jsval" where
  "get_prop v k = (if nullish v then Inl TypeError else Inr (member_of v k))"

text \<open>\<open>v?.k\<close>\<close>

definition opt_prop :: "jsval \<Rightarrow> string \<Rightarrow> jsval" where
  "opt_prop v k = (if nullish v then JUndefined else member_of v k)"

text \<open>
  \<open>v.toLowerCase()\<close>: only a string has the method. Reading it from \<open>null\<close> or
  \<open>undefined\<close> throws; on any other value \<open>toLowerCase\<close> is \<open>undefined\<close> or a payload
  value, and calling it throws.
\<close>

fun call_toLowerCase :: "jsval \<Rightarrow> exn + jsval" where
  "call_toLowerCase (JStr s) = Inr (JStr (toLowerCase s))"
| "call_toLowerCase v = Inl TypeError"

text \<open>String conversion in a template literal, for the values a chain slug can be.\<close>

fun to_string :: "jsval \<Rightarrow> string" where
  "to_string (JStr s) = s"
| "to_string (JBuiltin k) =
     (if k = ''constructor'' then ''function Object() { [native code] }''
      else if k = ''__proto__'' then ''[object Object]''
      else ''function '' @ k @ ''() { [native code] }'')"
| "to_string v = ''[object Object]''"

section \<open>Chain and address normalisation\<close>

definition CHAIN_MAP :: "(string \<times> string) list" where
  "CHAIN_MAP =
    [(''1'', ''ethereum''), (''ethereum'', ''ethereum''),
     (''137'', ''polygon''), (''polygon'', ''polygon''),
     (''56'', ''bsc''), (''bsc'', ''bsc''),
     (''42161'', ''arbitrum''), (''arbitrum'', ''arbitrum''),
     (''10'', ''optimism''), (''optimism'', ''optimism''),
     (''43114'', ''avalanche''), (''avax'', ''avalanche''),
     (''8453'', ''base''), (''base'', ''base''),
     (''250'', ''fantom''), (''fantom'', ''fantom'')]"

text \<open>
  \<open>CHAIN_MAP\<close> is an object literal, so \<open>CHAIN_MAP[key]\<close> finds, after the sixteen own
  properties, the members inherited from \<open>Object.prototype\<close>.
\<close>

definition object_prototype :: "string list" where
  "object_prototype =
    [''constructor'', ''__defineGetter__'', ''__defineSetter__'', ''hasOwnProperty'',
     ''__lookupGetter__'', ''__lookupSetter__'', ''isPrototypeOf'', ''propertyIsEnumerable'',
     ''toString'', ''valueOf'', ''__proto__'', ''toLocaleString'']"

definition chain_map_get :: "string \<Rightarrow> jsval" where
  "chain_map_get key =
    (case map_of CHAIN_MAP key of
       Some slug \<Rightarrow> JStr slug
     | None \<Rightarrow> if key \<in> set object_prototype then JBuiltin key else JUndefined)"

text \<open>
  \<open>resolveChainSlug\<close>. The input is the \<open>chain\<close> query parameter: absent (\<open>None\<close>) or a
  string; the empty string is falsy as well.
\<close>

definition resolveChainSlug :: "string option \<Rightarrow> jsval" where
  "resolveChainSlug chainInput =
    (case chainInput of
       None \<Rightarrow> JStr ''ethereum''
     | Some c \<Rightarrow>
         if c = [] then JStr ''ethereum''
         else let key = toLowerCase c in js_or (chain_map_get key) (JStr key))"

text \<open>
  \<open>normalizeAddress\<close>. \<open>ethers.getAddress\<close> is a parameter: \<open>None\<close> where it throws (it
  throws on anything that is not a string).
\<close>

definition normalizeAddress :: "(string \<Rightarrow> string option) \<Rightarrow> jsval \<Rightarrow> exn + jsval" where
  "normalizeAddress getAddress addr =
    (case (case addr of JStr s \<Rightarrow> getAddress s | _ \<Rightarrow> None) of
       Some a \<Rightarrow> Inr (JStr a)
     | None \<Rightarrow> (if nullish addr then Inl TypeError else call_toLowerCase addr))"

text \<open>\<open>formatTokenOutput\<close>; the record it returns is an object literal.\<close>

definition formatTokenOutput ::
  "(string \<Rightarrow> string option) \<Rightarrow> jsval \<Rightarrow> jsval \<Rightarrow> jsval \<Rightarrow> string \<Rightarrow> exn + jsval" where
  "formatTokenOutput getAddress rawName rawSymbol imageUrl contractAddress =
    (case (if truthy rawSymbol then call_toLowerCase rawSymbol else Inr JNull) of
       Inl e \<Rightarrow> Inl e
     | Inr symbol \<Rightarrow>
        (let name = js_or rawName
               (if truthy symbol then JStr (toUpperCase (to_string symbol)) else JNull) in
         case (if truthy name
               then (case call_toLowerCase name of
                       Inl e \<Rightarrow> Inl e
                     | Inr l \<Rightarrow> Inr (JStr (replace_spaces (to_string l))))
               else call_toLowerCase (js_or symbol (JStr contractAddress))) of
           Inl e \<Rightarrow> Inl e
         | Inr ident \<Rightarrow>
            (case normalizeAddress getAddress (JStr contractAddress) of
               Inl e \<Rightarrow> Inl e
             | Inr ca \<Rightarrow>
                 Inr (JObj [(''id'', ident), (''symbol'', symbol), (''name'', name),
                            (''image'', js_or imageUrl JNull), (''contractAddress'', ca)]))))"

section \<open>The cache\<close>

text \<open>
  Modelled from the spec: the cache is \<open>new LRUCache({ max: 5000, ttl: 1000 * 60 * 60 })\<close>
  of the lru-cache package, which is not among the sources. An entry is
  \<open>(key, value, insertedAt)\<close>; the list is in order of use, the most recently used entry
  first. A lookup treats an entry older than the time to live as absent (\<open>get\<close> removes
  it), a hit makes the entry the most recently used, \<open>set\<close> always succeeds, restarts the
  entry's age, and evicts the least recently used entry when a new key arrives at capacity;
  \<open>set\<close> of \<open>undefined\<close> deletes the key. Times are in milliseconds.
\<close>

type_synonym entry = "string \<times> jsval \<times> nat"

definition cache_max :: nat where
  "cache_max = 5000"

definition cache_ttl :: nat where
  "cache_ttl = 1000 * 60 * 60"

definition is_stale :: "nat \<Rightarrow> entry \<Rightarrow> bool" where
  "is_stale t e = (t - snd (snd e) > cache_ttl)"

definition cache_find :: "entry list \<Rightarrow> string \<Rightarrow> entry option" where
  "cache_find c k = find (\<lambda>e. fst e = k) c"

definition cache_remove :: "entry list \<Rightarrow> string \<Rightarrow> entry list" where
  "cache_remove c k = filter (\<lambda>e. fst e \<noteq> k) c"

definition cache_has :: "entry list \<Rightarrow> nat \<Rightarrow> string \<Rightarrow> bool" where
  "cache_has c t k = (case cache_find c k of None \<Rightarrow> False | Some e \<Rightarrow> \<not> is_stale t e)"

definition cache_get :: "entry list \<Rightarrow> nat \<Rightarrow> string \<Rightarrow> jsval \<times> entry list" where
  "cache_get c t k =
    (case cache_find c k of
       None \<Rightarrow> (JUndefined, c)
     | Some e \<Rightarrow>
         if is_stale t e then (JUndefined, cache_remove c k)
         else (fst (snd e), e # cache_remove c k))"

definition cache_set :: "entry list \<Rightarrow> nat \<Rightarrow> string \<Rightarrow> jsval \<Rightarrow> entry list" where
  "cache_set c t k v =
    (if v = JUndefined then cache_remove c k
     else if cache_find c k \<noteq> None then (k, v, t) # cache_remove c k
     else (k, v, t) # (if length c = cache_max then butlast c else c))"

section \<open>The outside world\<close>

text \<open>
  What the program does not decide is a parameter. \<open>fetch\<close> answers the \<open>n\<close>-th network
  request of the process, for a URL, in one of four ways: the request rejects, the
  response is not \<open>ok\<close>, \<open>res.json()\<close> throws, or it returns a value. \<open>newContract\<close> says
  whether \<open>new ethers.Contract\<close> returns for an address (rather than throws);
  \<open>callName\<close> and \<open>callSymbol\<close> are the contract's \<open>name()\<close> and \<open>symbol()\<close>, \<open>None\<close>
  where the call rejects. \<open>latency\<close> is the time the \<open>n\<close>-th request takes.
\<close>

datatype http = Rejects | NotOk | BadJson | Json jsval

datatype request = Fetch string | CallName string | CallSymbol string

record env =
  getAddress :: "string \<Rightarrow> string option"
  fetch :: "nat \<Rightarrow> string \<Rightarrow> http"
  newContract :: "string \<Rightarrow> bool"
  callName :: "nat \<Rightarrow> string \<Rightarrow> string option"
  callSymbol :: "nat \<Rightarrow> string \<Rightarrow> string option"
  latency :: "nat \<Rightarrow> nat"

text \<open>
  The state of the process: the shared cache, the clock, and the network requests issued
  so far, in order.
\<close>

record world =
  cache :: "entry list"
  now :: nat
  calls :: "request list"

definition issue :: "env \<Rightarrow> world \<Rightarrow> request \<Rightarrow> world" where
  "issue env w r = w\<lparr>calls := calls w @ [r], now := now w + latency env (length (calls w))\<rparr>"

definition of_opt :: "string option \<Rightarrow> jsval" where
  "of_opt x = (case x of None \<Rightarrow> JNull | Some s \<Rightarrow> JStr s)"

section \<open>Source adapters\<close>

subsection \<open>DefiLlama\<close>

text \<open>\<open>{ coins: {} }\<close>\<close>

definition empty_mapping :: jsval where
  "empty_mapping = JObj [(''coins'', JObj [])]"

definition llama_key :: "jsval \<Rightarrow> string list \<Rightarrow> string" where
  "llama_key chainSlug addresses =
     ''llama:'' @ to_string chainSlug @ '':'' @ join '','' addresses"

definition llama_url :: "jsval \<Rightarrow> string list \<Rightarrow> string" where
  "llama_url chainSlug addresses =
     ''https://coins.llama.fi/prices/current/'' @
     join '','' (map (\<lambda>a. to_string chainSlug @ '':'' @ a) addresses)"

definition fetchFromDefiLlama ::
  "env \<Rightarrow> world \<Rightarrow> jsval \<Rightarrow> string list \<Rightarrow> (exn + jsval) \<times> world" where
  "fetchFromDefiLlama env w chainSlug addresses =
    (let key = llama_key chainSlug addresses in
     if cache_has (cache w) (now w) key
     then (let r = cache_get (cache w) (now w) key in (Inr (fst r), w\<lparr>cache := snd r\<rparr>))
     else
       (let url = llama_url chainSlug addresses;
            res = fetch env (length (calls w)) url;
            w1 = issue env w (Fetch url)
        in case res of
             Rejects \<Rightarrow> (Inl FetchError, w1)
           | NotOk \<Rightarrow> (Inr empty_mapping, w1)
           | BadJson \<Rightarrow> (Inl SyntaxError, w1)
           | Json j \<Rightarrow> (Inr j, w1\<lparr>cache := cache_set (cache w1) (now w1) key j\<rparr>)))"

subsection \<open>CoinGecko\<close>

definition cg_key :: "string \<Rightarrow> string" where
  "cg_key symbol = ''cg:'' @ toLowerCase symbol"

definition cg_url :: "string \<Rightarrow> string" where
  "cg_url symbol = ''https://api.coingecko.com/api/v3/search?query='' @ symbol"

text \<open>\<open>v?.toLowerCase()\<close>\<close>

definition opt_toLowerCase :: "jsval \<Rightarrow> exn + jsval" where
  "opt_toLowerCase v = (if nullish v then Inr JUndefined else call_toLowerCase v)"

text \<open>
  \<open>coins.find(c => c.symbol?.toLowerCase() === symbol.toLowerCase())\<close>, the second
  argument being the lowercased symbol: the first element that matches, \<open>undefined\<close> when
  none does; the callback throws on an element that is \<open>null\<close> or whose symbol is not a
  string.
\<close>

fun cg_find :: "string \<Rightarrow> jsval list \<Rightarrow> exn + jsval" where
  "cg_find s [] = Inr JUndefined"
| "cg_find s (c # cs) =
     (case get_prop c ''symbol'' of
        Inl e \<Rightarrow> Inl e
      | Inr v \<Rightarrow>
          (case opt_toLowerCase v of
             Inl e \<Rightarrow> Inl e
           | Inr l \<Rightarrow> if l = JStr s then Inr c else cg_find s cs))"

text \<open>
  What the adapter makes of the parsed response: the result object, \<open>null\<close> when there are
  no coins, or an exception. When \<open>data.coins\<close> is truthy and not an array, either the
  test on its length fails, or \<open>data.coins.find\<close> is not a function and the call throws
  inside the \<open>try\<close>; both ways the adapter returns \<open>null\<close> and writes nothing, and the
  model takes the first.
\<close>

definition cg_result :: "string \<Rightarrow> jsval \<Rightarrow> exn + jsval" where
  "cg_result symbol data =
    (case get_prop data ''coins'' of
       Inl e \<Rightarrow> Inl e
     | Inr coins \<Rightarrow>
        (case coins of
           JArr cs \<Rightarrow>
             if cs = [] then Inr JNull
             else
               (case cg_find (toLowerCase symbol) cs of
                  Inl e \<Rightarrow> Inl e
                | Inr found \<Rightarrow>
                   (let match = js_or found (hd cs) in
                    case get_prop match ''id'' of
                      Inl e \<Rightarrow> Inl e
                    | Inr mid \<Rightarrow>
                       (case opt_toLowerCase (member_of match ''symbol'') of
                          Inl e \<Rightarrow> Inl e
                        | Inr msymbol \<Rightarrow>
                            Inr (JObj [(''id'', mid), (''symbol'', msymbol),
                                       (''name'', member_of match ''name''),
                                       (''image'', js_or (member_of match ''large'')
                                                     (js_or (member_of match ''thumb'') JNull))]))))
         | _ \<Rightarrow> Inr JNull))"

text \<open>The body of the \<open>try\<close> block.\<close>

definition cg_try :: "env \<Rightarrow> world \<Rightarrow> jsval \<Rightarrow> (exn + jsval) \<times> world" where
  "cg_try env w symbol =
    (case symbol of
       JStr s \<Rightarrow>
        (let key = cg_key s in
         if cache_has (cache w) (now w) key
         then (let r = cache_get (cache w) (now w) key in (Inr (fst r), w\<lparr>cache := snd r\<rparr>))
         else
           (let url = cg_url s;
                res = fetch env (length (calls w)) url;
                w1 = issue env w (Fetch url)
            in case res of
                 Rejects \<Rightarrow> (Inl FetchError, w1)
               | NotOk \<Rightarrow> (Inr JNull, w1)
               | BadJson \<Rightarrow> (Inl SyntaxError, w1)
               | Json data \<Rightarrow>
                  (case cg_result s data of
                     Inl e \<Rightarrow> (Inl e, w1)
                   | Inr result \<Rightarrow>
                       if result = JNull then (Inr JNull, w1)
                       else (Inr result, w1\<lparr>cache := cache_set (cache w1) (now w1) key result\<rparr>))))
     | _ \<Rightarrow> (Inl TypeError, w))"

definition fetchFromCoinGeckoBySymbol ::
  "env \<Rightarrow> world \<Rightarrow> jsval \<Rightarrow> (exn + jsval) \<times> world" where
  "fetchFromCoinGeckoBySymbol env w symbol =
    (let r = cg_try env w symbol in
     case fst r of Inl e \<Rightarrow> (Inr JNull, snd r) | Inr v \<Rightarrow> r)"

subsection \<open>On chain\<close>

definition onchain_key :: "string \<Rightarrow> string" where
  "onchain_key address = ''onchain:'' @ toLowerCase address"

definition null_record :: jsval where
  "null_record = JObj [(''name'', JNull), (''symbol'', JNull)]"

text \<open>
  The body of the \<open>try\<close> block. Each of the two calls has its own \<open>catch(() => null)\<close>, so
  both promises are fulfilled, with a string or with \<open>null\<close>.
\<close>

definition onchain_try :: "env \<Rightarrow> world \<Rightarrow> string \<Rightarrow> (exn + jsval) \<times> world" where
  "onchain_try env w address =
    (if \<not> newContract env address then (Inl ContractError, w)
     else
       (let name = callName env (length (calls w)) address;
            w1 = issue env w (CallName address);
            symbol = callSymbol env (length (calls w1)) address;
            w2 = issue env w1 (CallSymbol address);
            result = JObj [(''name'', of_opt name), (''symbol'', of_opt symbol)]
        in (Inr result,
            w2\<lparr>cache := cache_set (cache w2) (now w2) (onchain_key address) result\<rparr>)))"

definition fetchOnChainNameSymbol ::
  "env \<Rightarrow> world \<Rightarrow> string \<Rightarrow> (exn + jsval) \<times> world" where
  "fetchOnChainNameSymbol env w address =
    (let key = onchain_key address in
     if cache_has (cache w) (now w) key
     then (let r = cache_get (cache w) (now w) key in (Inr (fst r), w\<lparr>cache := snd r\<rparr>))
     else
       (let r = onchain_try env w address in
        case fst r of Inl e \<Rightarrow> (Inr null_record, snd r) | Inr v \<Rightarrow> r))"

section \<open>The batch\<close>

text \<open>The body of the loop of \<open>handleBatch\<close>, in its four steps.\<close>

definition tokenInfo_of :: "jsval \<Rightarrow> jsval \<Rightarrow> string \<Rightarrow> exn + jsval" where
  "tokenInfo_of llamaData chainSlug addr =
    (case get_prop llamaData ''coins'' of
       Inl e \<Rightarrow> Inl e
     | Inr coins \<Rightarrow> Inr (js_or (opt_prop coins (to_string chainSlug @ '':'' @ addr)) (JObj [])))"

definition seed_name :: "jsval \<Rightarrow> jsval" where
  "seed_name tokenInfo =
     js_or (member_of tokenInfo ''name'') (js_or (member_of tokenInfo ''symbol'') JNull)"

definition seed_symbol :: "jsval \<Rightarrow> jsval" where
  "seed_symbol tokenInfo = js_or (member_of tokenInfo ''symbol'') JNull"

definition seed_image :: "jsval \<Rightarrow> jsval" where
  "seed_image tokenInfo =
     js_or (member_of tokenInfo ''logo'') (js_or (member_of tokenInfo ''logo_url'') JNull)"

text \<open>\<open>if (!x && onchain.k) x = onchain.k\<close>\<close>

definition fill_from :: "jsval \<Rightarrow> jsval \<Rightarrow> string \<Rightarrow> exn + jsval" where
  "fill_from x onchain k =
    (if truthy x then Inr x
     else (case get_prop onchain k of
             Inl e \<Rightarrow> Inl e
           | Inr v \<Rightarrow> Inr (if truthy v then v else x)))"

definition onchain_fill ::
  "env \<Rightarrow> world \<Rightarrow> string \<Rightarrow> jsval \<Rightarrow> jsval \<Rightarrow> (exn + jsval \<times> jsval) \<times> world" where
  "onchain_fill env w addr name symbol =
    (if \<not> truthy name \<or> \<not> truthy symbol
     then
       (let r = fetchOnChainNameSymbol env w addr in
        case fst r of
          Inl e \<Rightarrow> (Inl e, snd r)
        | Inr onchain \<Rightarrow>
           (case fill_from name onchain ''name'' of
              Inl e \<Rightarrow> (Inl e, snd r)
            | Inr name1 \<Rightarrow>
               (case fill_from symbol onchain ''symbol'' of
                  Inl e \<Rightarrow> (Inl e, snd r)
                | Inr symbol1 \<Rightarrow> (Inr (name1, symbol1), snd r))))
     else (Inr (name, symbol), w))"

definition cg_fill ::
  "env \<Rightarrow> world \<Rightarrow> jsval \<Rightarrow> jsval \<Rightarrow> jsval \<Rightarrow> (exn + jsval \<times> jsval) \<times> world" where
  "cg_fill env w name symbol img =
    (if \<not> truthy img \<and> truthy symbol
     then
       (let r = fetchFromCoinGeckoBySymbol env w symbol in
        case fst r of
          Inl e \<Rightarrow> (Inl e, snd r)
        | Inr cgData \<Rightarrow>
           (let image1 = (if truthy cgData \<and> truthy (member_of cgData ''image'')
                          then member_of cgData ''image'' else img);
                name1 = (if \<not> truthy name \<and> truthy (opt_prop cgData ''name'')
                         then opt_prop cgData ''name'' else name)
            in (Inr (name1, image1), snd r)))
     else (Inr (name, img), w))"

definition resolve_one ::
  "env \<Rightarrow> world \<Rightarrow> jsval \<Rightarrow> jsval \<Rightarrow> string \<Rightarrow> (exn + jsval) \<times> world" where
  "resolve_one env w chainSlug llamaData addr =
    (case tokenInfo_of llamaData chainSlug addr of
       Inl e \<Rightarrow> (Inl e, w)
     | Inr tokenInfo \<Rightarrow>
        (let r1 = onchain_fill env w addr (seed_name tokenInfo) (seed_symbol tokenInfo) in
         case fst r1 of
           Inl e \<Rightarrow> (Inl e, snd r1)
         | Inr (name, symbol) \<Rightarrow>
            (let r2 = cg_fill env (snd r1) name symbol (seed_image tokenInfo) in
             case fst r2 of
               Inl e \<Rightarrow> (Inl e, snd r2)
             | Inr (name2, img) \<Rightarrow>
                 (formatTokenOutput (getAddress env) name2 symbol img addr, snd r2))))"

text \<open>The loop: the records are pushed in the order of the addresses; an exception ends it.\<close>

fun resolve_all ::
  "env \<Rightarrow> world \<Rightarrow> jsval \<Rightarrow> jsval \<Rightarrow> string list \<Rightarrow> (exn + jsval list) \<times> world" where
  "resolve_all env w chainSlug llamaData [] = (Inr [], w)"
| "resolve_all env w chainSlug llamaData (addr # rest) =
     (let r = resolve_one env w chainSlug llamaData addr in
      case fst r of
        Inl e \<Rightarrow> (Inl e, snd r)
      | Inr item \<Rightarrow>
         (let rs = resolve_all env (snd r) chainSlug llamaData rest in
          case fst rs of
            Inl e \<Rightarrow> (Inl e, snd rs)
          | Inr items \<Rightarrow> (Inr (item # items), snd rs)))"

text \<open>The bulk lookup, with the \<open>try\<close> and \<open>catch\<close> of \<open>handleBatch\<close> around it.\<close>

definition llama_data :: "env \<Rightarrow> world \<Rightarrow> jsval \<Rightarrow> string list \<Rightarrow> jsval \<times> world" where
  "llama_data env w chainSlug normalized =
    (let r = fetchFromDefiLlama env w chainSlug normalized in
     case fst r of
       Inl e \<Rightarrow> (empty_mapping, snd r)
     | Inr v \<Rightarrow> (v, snd r))"

definition handleBatch ::
  "env \<Rightarrow> world \<Rightarrow> string list \<Rightarrow> string option \<Rightarrow> (exn + jsval list) \<times> world" where
  "handleBatch env w addresses chainInput =
    (let chainSlug = resolveChainSlug chainInput;
         normalized = map toLowerCase addresses;
         r = llama_data env w chainSlug normalized
     in resolve_all env (snd r) chainSlug (fst r) normalized)"

section \<open>Serving a batch from the cache\<close>






text \<open>
  The sources are up: contract objects can be made, the bulk source answers with a body
  that parses, and every symbol search finds a coin (the reads of a contract may still
  reject).
\<close>

definition sources_up :: "env \<Rightarrow> bool" where
  "sources_up env =
    ((\<forall>a. newContract env a)
     \<and> (\<forall>n slug as. \<exists>j. fetch env n (llama_url slug as) = Json j \<and> j \<noteq> JUndefined)
     \<and> (\<forall>n s. \<exists>d r. fetch env n (cg_url s) = Json d \<and> cg_result s d = Inr r \<and> r \<noteq> JNull))"














section \<open>Example environments\<close>

text \<open>Every source is down: requests reject, contract reads reject, no address is valid.\<close>

definition env_down :: env where
  "env_down =
    \<lparr>getAddress = (\<lambda>a. None), fetch = (\<lambda>n url. Rejects), newContract = (\<lambda>a. True),
     callName = (\<lambda>n a. None), callSymbol = (\<lambda>n a. None), latency = (\<lambda>n. 1)\<rparr>"

text \<open>One address is valid, with its checksummed form.\<close>

definition env_usdc :: env where
  "env_usdc =
    env_down\<lparr>getAddress := (\<lambda>a.
       if a = ''0xa0b86991c6218b36c1d19d4a2e9eb0ce3606eb48''
       then Some ''0xA0b86991c6218b36c1d19D4a2e9Eb0cE3606eB48'' else None)\<rparr>"

text \<open>Every request is answered with status 200 and the body \<open>null\<close>.\<close>

definition env_null :: env where
  "env_null = env_down\<lparr>fetch := (\<lambda>n url. Json JNull)\<rparr>"

text \<open>
  The sources are up. Every request is answered with one coin, whose symbol is \<open>USDC\<close>;
  contracts answer \<open>symbol()\<close> and reject \<open>name()\<close>.
\<close>

definition usdc_search :: jsval where
  "usdc_search =
    JObj [(''coins'', JArr [JObj [(''id'', JStr ''usd-coin''), (''symbol'', JStr ''USDC''),
                                  (''name'', JStr ''USD Coin''),
                                  (''large'', JStr ''https://img.example/usdc.png'')]])]"

definition env_up :: env where
  "env_up =
    \<lparr>getAddress = (\<lambda>a. None), fetch = (\<lambda>n url. Json usdc_search), newContract = (\<lambda>a. True),
     callName = (\<lambda>n a. None), callSymbol = (\<lambda>n a. Some ''USDC''), latency = (\<lambda>n. 1)\<rparr>"

text \<open>
  The sources are up, and every contract answers \<open>symbol()\<close> with a symbol of its own
  (here the address it was asked under). \<open>usdc_found\<close> is what the symbol search makes
  of the answer \<open>usdc_search\<close>.
\<close>

definition env_own_symbol :: env where
  "env_own_symbol = env_up\<lparr>callSymbol := (\<lambda>n a. Some a)\<rparr>"


text \<open>
  The bulk source knows the symbol of one token and not its name; contracts answer both
  reads.
\<close>

definition bulk_symbol_only :: jsval where
  "bulk_symbol_only =
    JObj [(''coins'', JObj [(''ethereum:0xabc'', JObj [(''symbol'', JStr ''USDC'')])])]"

definition env_symbol_only :: env where
  "env_symbol_only =
    \<lparr>getAddress = (\<lambda>a. None), fetch = (\<lambda>n url. Json bulk_symbol_only), newContract = (\<lambda>a. True),
     callName = (\<lambda>n a. Some ''USD Coin''), callSymbol = (\<lambda>n a. Some ''USDC''), latency = (\<lambda>n. 1)\<rparr>"



text \<open>A process that has just started.\<close>

definition world0 :: world where
  "world0 = \<lparr>cache = [], now = 1, calls = []\<rparr>"

section \<open>Strings: case conversion and joining\<close>

lemma of_char_lower_char: "is_upper c \<Longrightarrow> (of_char (lower_char c) :: nat) = of_char c + 32"
  by (simp add: lower_char_def is_upper_def)

lemma not_upper_lower_char: "\<not> is_upper (lower_char c)"
proof (cases "is_upper c")
  case True
  then show ?thesis using of_char_lower_char[OF True] by (simp add: is_upper_def)
next
  case False
  then show ?thesis by (simp add: lower_char_def)
qed

lemma lower_char_idem: "lower_char (lower_char c) = lower_char c"
  using not_upper_lower_char[of c] by (simp add: lower_char_def[of "lower_char c"])

lemma toLowerCase_idem: "toLowerCase (toLowerCase s) = toLowerCase s"
  by (simp add: toLowerCase_def lower_char_idem)



lemma join_Cons: "join sep (x # xs) = (if xs = [] then x else x @ sep @ join sep xs)"
  by (cases xs) simp_all

lemma join_eq_Nil: "join sep (x # xs) = [] \<Longrightarrow> x = []"
  by (simp add: join_Cons split: if_splits)

lemma takeWhile_sep: "c \<notin> set x \<Longrightarrow> takeWhile (\<lambda>d. d \<noteq> c) (x @ c # r) = x"
  by (induction x) auto

lemma sep_split:
  assumes "c \<notin> set x" "c \<notin> set y" "x @ c # r = y @ c # t"
  shows "x = y \<and> r = t"
proof -
  have "x = y"
    using takeWhile_sep[OF assms(1), of r] takeWhile_sep[OF assms(2), of t] assms(3) by simp
  then show ?thesis using assms(3) by simp
qed

text \<open>Joining with commas loses nothing of a list of non-empty, comma-free strings.\<close>

lemma join_comma_inj:
  assumes "\<forall>a \<in> set xs \<union> set ys. a \<noteq> [] \<and> CHR '','' \<notin> set a"
  shows "join '','' xs = join '','' ys \<longleftrightarrow> xs = ys"
  using assms
proof (induction xs arbitrary: ys)
  case Nil
  then show ?case by (cases ys) (auto dest: join_eq_Nil[OF sym])
next
  case (Cons x xs)
  show ?case
  proof (cases ys)
    case Nil
    then show ?thesis using Cons.prems by (auto dest: join_eq_Nil)
  next
    case c: (Cons y ys')
    have px: "CHR '','' \<notin> set x" and py: "CHR '','' \<notin> set y" using Cons.prems c by auto
    have ih: "join '','' xs = join '','' ys' \<longleftrightarrow> xs = ys'"
      using Cons.IH[of ys'] Cons.prems c by auto
    show ?thesis
    proof
      assume e: "join '','' (x # xs) = join '','' ys"
      show "x # xs = ys"
      proof (cases "xs = []")
        case True
        show ?thesis
        proof (cases "ys' = []")
          case True
          then show ?thesis using e c \<open>xs = []\<close> by simp
        next
          case False
          then have "x = y @ CHR '','' # join '','' ys'" using e c True by (simp add: join_Cons)
          then show ?thesis using px by auto
        qed
      next
        case False
        show ?thesis
        proof (cases "ys' = []")
          case True
          then have "y = x @ CHR '','' # join '','' xs" using e c False by (simp add: join_Cons)
          then show ?thesis using py by auto
        next
          case ne: False
          have "x @ CHR '','' # join '','' xs = y @ CHR '','' # join '','' ys'"
            using e c False ne by (simp add: join_Cons)
          from sep_split[OF px py this] show ?thesis using ih c by simp
        qed
      qed
    next
      assume "x # xs = ys"
      then show "join '','' (x # xs) = join '','' ys" by simp
    qed
  qed
qed

section \<open>Chain resolution\<close>

text \<open>
  What \<open>resolveChainSlug\<close> does on every input: an absent or empty input gives
  \<open>ethereum\<close>, a key of the alias table gives the table's slug, whatever the case of the
  input; any other input comes back lowercased, unless its lowercased form names a member
  of \<open>Object.prototype\<close>.
\<close>

lemma resolveChainSlug_cases:
  "resolveChainSlug None = JStr ''ethereum''"
  "resolveChainSlug (Some []) = JStr ''ethereum''"
  "c \<noteq> [] \<Longrightarrow> map_of CHAIN_MAP (toLowerCase c) = Some slug \<Longrightarrow>
     resolveChainSlug (Some c) = JStr slug"
  "c \<noteq> [] \<Longrightarrow> map_of CHAIN_MAP (toLowerCase c) = None \<Longrightarrow>
     toLowerCase c \<notin> set object_prototype \<Longrightarrow>
     resolveChainSlug (Some c) = JStr (toLowerCase c)"
proof -
  show "resolveChainSlug None = JStr ''ethereum''"
    by (simp add: resolveChainSlug_def)
  show "resolveChainSlug (Some []) = JStr ''ethereum''"
    by (simp add: resolveChainSlug_def)
  show "c \<noteq> [] \<Longrightarrow> map_of CHAIN_MAP (toLowerCase c) = Some slug \<Longrightarrow>
     resolveChainSlug (Some c) = JStr slug"
  proof -
    assume ne: "c \<noteq> []" and m: "map_of CHAIN_MAP (toLowerCase c) = Some slug"
    from m have "(toLowerCase c, slug) \<in> set CHAIN_MAP" by (rule map_of_SomeD)
    then have "slug \<noteq> []" by (auto simp: CHAIN_MAP_def)
    then show ?thesis using ne m
      by (simp add: resolveChainSlug_def chain_map_get_def js_or_def)
  qed
  show "c \<noteq> [] \<Longrightarrow> map_of CHAIN_MAP (toLowerCase c) = None \<Longrightarrow>
     toLowerCase c \<notin> set object_prototype \<Longrightarrow>
     resolveChainSlug (Some c) = JStr (toLowerCase c)"
    by (simp add: resolveChainSlug_def chain_map_get_def js_or_def)
qed

lemma resolveChainSlug_examples:
  "resolveChainSlug (Some ''137'') = JStr ''polygon''"
  "resolveChainSlug (Some ''Polygon'') = JStr ''polygon''"
  "resolveChainSlug (Some ''999999'') = JStr ''999999''"
  by code_simp+

text \<open>
  C8, at the input where it fails. The chain identifier \<open>constructor\<close> is in no alias
  table, and is not returned as itself: the lookup in the object literal finds the
  inherited \<open>Object.prototype.constructor\<close>, a function, which is truthy, and
  \<open>resolveChainSlug\<close> returns that function.
\<close>

theorem resolveChainSlug_constructor:
  "resolveChainSlug (Some ''constructor'') = JBuiltin ''constructor''"
  by code_simp

section \<open>Address normalisation\<close>

text \<open>
  C9: for every string, \<open>normalizeAddress\<close> returns a value and throws nothing: the
  checksummed form where \<open>ethers.getAddress\<close> accepts the string, the string lowercased
  where it throws.
\<close>

theorem normalizeAddress_string:
  "normalizeAddress ga (JStr s) =
     Inr (JStr (case ga s of Some c \<Rightarrow> c | None \<Rightarrow> toLowerCase s))"
  by (simp add: normalizeAddress_def split: option.splits)

theorem normalizeAddress_string_witness:
  "normalizeAddress (getAddress env_usdc) (JStr ''not-an-address'') = Inr (JStr ''not-an-address'')
   \<and> normalizeAddress (getAddress env_usdc) (JStr ''0xa0b86991c6218b36c1d19d4a2e9eb0ce3606eb48'')
       = Inr (JStr ''0xA0b86991c6218b36c1d19D4a2e9Eb0cE3606eB48'')"
proof -
  have l: "toLowerCase ''not-an-address'' = ''not-an-address''" by code_simp
  show ?thesis
    using normalizeAddress_string[of "getAddress env_usdc" "''not-an-address''"]
      normalizeAddress_string[of "getAddress env_usdc" "''0xa0b86991c6218b36c1d19d4a2e9eb0ce3606eb48''"]
    by (simp add: l env_usdc_def env_down_def)
qed

section \<open>The emitted id\<close>




section \<open>The key of the bulk lookup\<close>

text \<open>
  C4, as the code has it: the key is the chain slug and the addresses joined in the order
  of the batch; nothing sorts them. For one chain, two batches of non-empty addresses
  without commas have the same key exactly when they are the same addresses in the same
  order.
\<close>

theorem llama_key_order:
  assumes "\<forall>a \<in> set xs \<union> set ys. a \<noteq> [] \<and> CHR '','' \<notin> set a"
  shows "llama_key slug xs = llama_key slug ys \<longleftrightarrow> xs = ys"
  using join_comma_inj[OF assms] by (simp add: llama_key_def)

theorem llama_key_order_witness:
  "llama_key (JStr ''polygon'') [''0x1'', ''0x2''] \<noteq> llama_key (JStr ''polygon'') [''0x2'', ''0x1'']"
  using llama_key_order[of "[''0x1'', ''0x2'']" "[''0x2'', ''0x1'']" "JStr ''polygon''"]
  by simp

text \<open>C4 as stated fails: the same two addresses in the other order give another key.\<close>

theorem llama_key_sorted_counterexample:
  "llama_key (JStr ''ethereum'') [''0xa'', ''0xb''] \<noteq> llama_key (JStr ''ethereum'') [''0xb'', ''0xa'']"
  by (simp add: llama_key_def)

section \<open>The cache\<close>

lemma cache_find_None_remove: "cache_find c k = None \<Longrightarrow> cache_remove c k = c"
  by (auto simp: cache_find_def cache_remove_def find_None_iff filter_id_conv)












section \<open>Negative results of the on-chain source\<close>




















section \<open>Merging the on-chain result\<close>

lemma seed_null_or_truthy:
  "seed_name ti = JNull \<or> truthy (seed_name ti)"
  "seed_symbol ti = JNull \<or> truthy (seed_symbol ti)"
  "seed_image ti = JNull \<or> truthy (seed_image ti)"
  by (auto simp: seed_name_def seed_symbol_def seed_image_def js_or_def)

lemma fetchOnChainNameSymbol_returns: "\<exists>v. fst (fetchOnChainNameSymbol env w a) = Inr v"
  by (auto simp: fetchOnChainNameSymbol_def onchain_try_def Let_def split: sum.splits)

lemma fetchFromCoinGeckoBySymbol_returns:
  "\<exists>v. fst (fetchFromCoinGeckoBySymbol env w symbol) = Inr v"
  by (auto simp: fetchFromCoinGeckoBySymbol_def Let_def split: sum.splits)

text \<open>
  C2, as the code has it. The loop seeds the name from the name of the bulk record or,
  when it has none, from its symbol, and the symbol from the symbol of the bulk record.
  When both are set (neither is null) the loop body leaves the on-chain source alone: the
  world and the two fields stay as they are. When one of them is null it calls the
  on-chain source: the world afterwards is the one that call leaves, and, the on-chain
  source having returned a record, a field that was set keeps its value and a field that
  was null takes the on-chain value if there is one, and stays null otherwise. When the
  address is not in the cache the on-chain source does return a record, and with a
  contract object at hand the call issues the two reads.
\<close>

theorem onchain_fill_seeded:
  "seed_name ti =
     (if truthy (member_of ti ''name'') then member_of ti ''name''
      else if truthy (member_of ti ''symbol'') then member_of ti ''symbol'' else JNull)
   \<and> seed_symbol ti =
     (if truthy (member_of ti ''symbol'') then member_of ti ''symbol'' else JNull)
   \<and> (seed_name ti \<noteq> JNull \<and> seed_symbol ti \<noteq> JNull \<longrightarrow>
      onchain_fill env w addr (seed_name ti) (seed_symbol ti) =
        (Inr (seed_name ti, seed_symbol ti), w))
   \<and> (seed_name ti = JNull \<or> seed_symbol ti = JNull \<longrightarrow>
      (\<forall>onchain. fst (fetchOnChainNameSymbol env w addr) = Inr onchain \<and> \<not> nullish onchain \<longrightarrow>
         onchain_fill env w addr (seed_name ti) (seed_symbol ti) =
           (Inr (if seed_name ti \<noteq> JNull then seed_name ti
                 else if truthy (member_of onchain ''name'') then member_of onchain ''name''
                 else JNull,
                 if seed_symbol ti \<noteq> JNull then seed_symbol ti
                 else if truthy (member_of onchain ''symbol'') then member_of onchain ''symbol''
                 else JNull),
            snd (fetchOnChainNameSymbol env w addr))))
   \<and> (seed_name ti = JNull \<or> seed_symbol ti = JNull \<longrightarrow>
      \<not> cache_has (cache w) (now w) (onchain_key addr) \<longrightarrow>
        (\<exists>n s. fst (fetchOnChainNameSymbol env w addr) = Inr (JObj [(''name'', n), (''symbol'', s)]))
        \<and> (newContract env addr \<longrightarrow>
             calls (snd (onchain_fill env w addr (seed_name ti) (seed_symbol ti))) =
               calls w @ [CallName addr, CallSymbol addr]))"
proof -
  have 1: "seed_name ti =
     (if truthy (member_of ti ''name'') then member_of ti ''name''
      else if truthy (member_of ti ''symbol'') then member_of ti ''symbol'' else JNull)"
    and 2: "seed_symbol ti =
     (if truthy (member_of ti ''symbol'') then member_of ti ''symbol'' else JNull)"
    by (simp_all add: seed_name_def seed_symbol_def js_or_def)
  have 3: "seed_name ti \<noteq> JNull \<and> seed_symbol ti \<noteq> JNull \<longrightarrow>
      onchain_fill env w addr (seed_name ti) (seed_symbol ti) =
        (Inr (seed_name ti, seed_symbol ti), w)"
    using seed_null_or_truthy(1,2)[of ti] by (auto simp: onchain_fill_def)
  have 4: "seed_name ti = JNull \<or> seed_symbol ti = JNull \<longrightarrow>
      (\<forall>onchain. fst (fetchOnChainNameSymbol env w addr) = Inr onchain \<and> \<not> nullish onchain \<longrightarrow>
         onchain_fill env w addr (seed_name ti) (seed_symbol ti) =
           (Inr (if seed_name ti \<noteq> JNull then seed_name ti
                 else if truthy (member_of onchain ''name'') then member_of onchain ''name''
                 else JNull,
                 if seed_symbol ti \<noteq> JNull then seed_symbol ti
                 else if truthy (member_of onchain ''symbol'') then member_of onchain ''symbol''
                 else JNull),
            snd (fetchOnChainNameSymbol env w addr)))"
    using seed_null_or_truthy(1,2)[of ti]
    by (auto simp: onchain_fill_def fill_from_def get_prop_def Let_def)
  have 5: "seed_name ti = JNull \<or> seed_symbol ti = JNull \<longrightarrow>
      \<not> cache_has (cache w) (now w) (onchain_key addr) \<longrightarrow>
        (\<exists>n s. fst (fetchOnChainNameSymbol env w addr) = Inr (JObj [(''name'', n), (''symbol'', s)]))
        \<and> (newContract env addr \<longrightarrow>
             calls (snd (onchain_fill env w addr (seed_name ti) (seed_symbol ti))) =
               calls w @ [CallName addr, CallSymbol addr])"
    by (auto simp: onchain_fill_def fetchOnChainNameSymbol_def onchain_try_def fill_from_def
          get_prop_def null_record_def Let_def issue_def)
  from 1 2 3 4 5 show ?thesis by blast
qed

theorem onchain_fill_seeded_witness:
  "onchain_fill env_symbol_only world0 ''0xabc''
       (seed_name (JObj [(''symbol'', JStr ''USDC'')])) (seed_symbol (JObj [(''symbol'', JStr ''USDC'')])) =
     (Inr (JStr ''USDC'', JStr ''USDC''), world0)
   \<and> onchain_fill env_symbol_only world0 ''0xabc''
       (seed_name (JObj [(''name'', JStr ''Dollar'')])) (seed_symbol (JObj [(''name'', JStr ''Dollar'')])) =
     (Inr (JStr ''Dollar'', JStr ''USDC''),
      \<lparr>cache = [(''onchain:0xabc'', JObj [(''name'', JStr ''USD Coin''), (''symbol'', JStr ''USDC'')], 3)],
       now = 3, calls = [CallName ''0xabc'', CallSymbol ''0xabc'']\<rparr>)"
proof -
  let ?both = "JObj [(''symbol'', JStr ''USDC'')]"
  let ?name = "JObj [(''name'', JStr ''Dollar'')]"
  let ?rec = "JObj [(''name'', JStr ''USD Coin''), (''symbol'', JStr ''USDC'')]"
  have a: "seed_name ?both = JStr ''USDC''" "seed_symbol ?both = JStr ''USDC''"
          "seed_name ?name = JStr ''Dollar''" "seed_symbol ?name = JNull"
    by (simp_all add: seed_name_def seed_symbol_def js_or_def)
  have f: "fetchOnChainNameSymbol env_symbol_only world0 ''0xabc'' =
      (Inr ?rec,
       \<lparr>cache = [(''onchain:0xabc'', ?rec, 3)], now = 3,
        calls = [CallName ''0xabc'', CallSymbol ''0xabc'']\<rparr>)"
    by code_simp
  note t1 = onchain_fill_seeded[of ?both env_symbol_only world0 "''0xabc''"]
  note t2 = onchain_fill_seeded[of ?name env_symbol_only world0 "''0xabc''"]
  from t1 have 1: "onchain_fill env_symbol_only world0 ''0xabc'' (seed_name ?both) (seed_symbol ?both) =
     (Inr (JStr ''USDC'', JStr ''USDC''), world0)"
    by (simp add: a)
  from t2 have "\<forall>onchain. fst (fetchOnChainNameSymbol env_symbol_only world0 ''0xabc'') = Inr onchain
        \<and> \<not> nullish onchain \<longrightarrow>
         onchain_fill env_symbol_only world0 ''0xabc'' (seed_name ?name) (seed_symbol ?name) =
           (Inr (if seed_name ?name \<noteq> JNull then seed_name ?name
                 else if truthy (member_of onchain ''name'') then member_of onchain ''name''
                 else JNull,
                 if seed_symbol ?name \<noteq> JNull then seed_symbol ?name
                 else if truthy (member_of onchain ''symbol'') then member_of onchain ''symbol''
                 else JNull),
            snd (fetchOnChainNameSymbol env_symbol_only world0 ''0xabc''))"
    by (simp only: a) simp
  from this[rule_format, of ?rec]
  have 2: "onchain_fill env_symbol_only world0 ''0xabc'' (seed_name ?name) (seed_symbol ?name) =
     (Inr (JStr ''Dollar'', JStr ''USDC''),
      \<lparr>cache = [(''onchain:0xabc'', ?rec, 3)], now = 3,
       calls = [CallName ''0xabc'', CallSymbol ''0xabc'']\<rparr>)"
    by (simp add: a f)
  from 1 2 show ?thesis by simp
qed

text \<open>
  C2 as stated fails for a bulk record with a symbol and no name. The bulk source knows
  \<open>0xabc\<close> by its symbol only, so the name is not set by the bulk record; the contract
  would answer \<open>name()\<close> with \<open>USD Coin\<close>. The loop seeds the name from the symbol,
  does not ask the chain (the requests of the batch are the bulk lookup and the symbol
  search, the latter finding nothing), and the record has the symbol for its name.
\<close>

theorem bulk_symbol_seeds_name_counterexample:
  "tokenInfo_of bulk_symbol_only (JStr ''ethereum'') ''0xabc'' = Inr (JObj [(''symbol'', JStr ''USDC'')])
   \<and> member_of (JObj [(''symbol'', JStr ''USDC'')]) ''name'' = JUndefined
   \<and> callName env_symbol_only 0 ''0xabc'' = Some ''USD Coin''
   \<and> handleBatch env_symbol_only world0 [''0xabc''] None =
     (Inr [JObj [(''id'', JStr ''usdc''), (''symbol'', JStr ''usdc''), (''name'', JStr ''USDC''),
                 (''image'', JNull), (''contractAddress'', JStr ''0xabc'')]],
      \<lparr>cache = [(''llama:ethereum:0xabc'', bulk_symbol_only, 2)], now = 3,
       calls = [Fetch ''https://coins.llama.fi/prices/current/ethereum:0xabc'',
                Fetch ''https://api.coingecko.com/api/v3/search?query=USDC'']\<rparr>)"
  by code_simp

section \<open>Failures of the sources\<close>

text \<open>
  C1, as the code has it. The on-chain source and the symbol search never throw: the
  on-chain source returns a record whose field is null where the read rejects (the
  all-null record when the contract object cannot be made), the symbol search returns
  null when the request rejects, the response is not a success or its body cannot be
  parsed. The bulk source returns the empty mapping on a response that is not a success;
  a rejected request and a body that cannot be parsed leave it as exceptions, which
  \<open>handleBatch\<close> catches, going on with the empty mapping.
\<close>

theorem adapters_contain_failures:
  "(\<exists>v. fst (fetchOnChainNameSymbol env w a) = Inr v)
   \<and> (\<exists>v. fst (fetchFromCoinGeckoBySymbol env w symbol) = Inr v)
   \<and> (\<not> cache_has (cache w) (now w) (onchain_key a) \<longrightarrow>
        fst (fetchOnChainNameSymbol env w a) =
          Inr (if newContract env a
               then JObj [(''name'', of_opt (callName env (length (calls w)) a)),
                          (''symbol'', of_opt (callSymbol env (Suc (length (calls w))) a))]
               else null_record))
   \<and> (\<not> cache_has (cache w) (now w) (cg_key s) \<longrightarrow>
        fetch env (length (calls w)) (cg_url s) \<in> {Rejects, NotOk, BadJson} \<longrightarrow>
        fst (fetchFromCoinGeckoBySymbol env w (JStr s)) = Inr JNull)
   \<and> (\<not> cache_has (cache w) (now w) (llama_key slug as) \<longrightarrow>
        fetch env (length (calls w)) (llama_url slug as) = NotOk \<longrightarrow>
        fst (fetchFromDefiLlama env w slug as) = Inr empty_mapping)
   \<and> (\<not> cache_has (cache w) (now w) (llama_key slug as) \<longrightarrow>
        fetch env (length (calls w)) (llama_url slug as) \<in> {Rejects, BadJson} \<longrightarrow>
        (\<exists>e. fst (fetchFromDefiLlama env w slug as) = Inl e)
        \<and> fst (llama_data env w slug as) = empty_mapping)"
proof -
  have 1: "\<exists>v. fst (fetchOnChainNameSymbol env w a) = Inr v"
    by (rule fetchOnChainNameSymbol_returns)
  have 2: "\<exists>v. fst (fetchFromCoinGeckoBySymbol env w symbol) = Inr v"
    by (rule fetchFromCoinGeckoBySymbol_returns)
  have 3: "\<not> cache_has (cache w) (now w) (onchain_key a) \<longrightarrow>
        fst (fetchOnChainNameSymbol env w a) =
          Inr (if newContract env a
               then JObj [(''name'', of_opt (callName env (length (calls w)) a)),
                          (''symbol'', of_opt (callSymbol env (Suc (length (calls w))) a))]
               else null_record)"
    by (simp add: fetchOnChainNameSymbol_def onchain_try_def Let_def issue_def)
  have 4: "\<not> cache_has (cache w) (now w) (cg_key s) \<longrightarrow>
        fetch env (length (calls w)) (cg_url s) \<in> {Rejects, NotOk, BadJson} \<longrightarrow>
        fst (fetchFromCoinGeckoBySymbol env w (JStr s)) = Inr JNull"
    by (auto simp: fetchFromCoinGeckoBySymbol_def cg_try_def Let_def)
  have 5: "\<not> cache_has (cache w) (now w) (llama_key slug as) \<longrightarrow>
        fetch env (length (calls w)) (llama_url slug as) = NotOk \<longrightarrow>
        fst (fetchFromDefiLlama env w slug as) = Inr empty_mapping"
    by (simp add: fetchFromDefiLlama_def Let_def)
  have 6: "\<not> cache_has (cache w) (now w) (llama_key slug as) \<longrightarrow>
        fetch env (length (calls w)) (llama_url slug as) \<in> {Rejects, BadJson} \<longrightarrow>
        (\<exists>e. fst (fetchFromDefiLlama env w slug as) = Inl e)
        \<and> fst (llama_data env w slug as) = empty_mapping"
    by (auto simp: llama_data_def fetchFromDefiLlama_def Let_def)
  from 1 2 3 4 5 6 show ?thesis by blast
qed

theorem adapters_contain_failures_witness:
  "fst (fetchOnChainNameSymbol env_down world0 ''0xabc'') = Inr null_record
   \<and> fst (fetchFromCoinGeckoBySymbol env_down world0 (JStr ''USDC'')) = Inr JNull
   \<and> fst (llama_data env_down world0 (JStr ''ethereum'') [''0xabc'']) = empty_mapping"
proof -
  have h: "\<not> cache_has (cache world0) (now world0) k" for k
    by (simp add: world0_def cache_has_def cache_find_def)
  have f: "fetch env_down n u = Rejects" for n u by (simp add: env_down_def)
  have c: "newContract env_down ''0xabc''" "callName env_down n ''0xabc'' = None"
    "callSymbol env_down n ''0xabc'' = None" for n
    by (simp_all add: env_down_def)
  show ?thesis
    using adapters_contain_failures[of env_down world0 "''0xabc''" "JStr ''USDC''" "''USDC''"
        "JStr ''ethereum''" "[''0xabc'']"]
    by (simp add: h f c of_opt_def null_record_def)
qed

text \<open>
  C1 as stated fails for the bulk source: when the request rejects, the exception leaves
  \<open>fetchFromDefiLlama\<close>.
\<close>

theorem bulk_adapter_throws_counterexample:
  "fst (fetchFromDefiLlama env_down world0 (JStr ''ethereum'') [''0xabc'']) = Inl FetchError"
  by code_simp

section \<open>The records of a batch\<close>

lemma formatTokenOutput_contractAddress:
  "formatTokenOutput ga n s i a = Inr r \<Longrightarrow>
   member_of r ''contractAddress'' = JStr (case ga a of Some c \<Rightarrow> c | None \<Rightarrow> toLowerCase a)"
  by (auto simp: formatTokenOutput_def normalizeAddress_def Let_def
        split: sum.splits if_splits option.splits)

lemma resolve_one_contractAddress:
  "fst (resolve_one env w slug ld a) = Inr r \<Longrightarrow>
   member_of r ''contractAddress'' =
     JStr (case getAddress env a of Some c \<Rightarrow> c | None \<Rightarrow> toLowerCase a)"
  by (auto simp: resolve_one_def Let_def split: sum.splits prod.splits
        dest: formatTokenOutput_contractAddress)

lemma resolve_all_records:
  "fst (resolve_all env w slug ld as) = Inr out \<Longrightarrow>
   list_all2 (\<lambda>a r. member_of r ''contractAddress'' =
     JStr (case getAddress env a of Some c \<Rightarrow> c | None \<Rightarrow> toLowerCase a)) as out"
proof (induction as arbitrary: w out)
  case Nil
  then show ?case by simp
next
  case (Cons a as)
  then show ?case
    by (auto simp: Let_def split: sum.splits dest: resolve_one_contractAddress)
qed

text \<open>
  Whenever \<open>handleBatch\<close> returns, it returns one record for each address, in the order
  of the addresses, and the contract address of each record is a string: the normalised
  form of the lowercased input address.
\<close>

lemma handleBatch_records:
  assumes "fst (handleBatch env w addresses chain) = Inr out"
  shows "length out = length addresses"
    and "i < length addresses \<Longrightarrow>
      member_of (out ! i) ''contractAddress'' =
        JStr (case getAddress env (toLowerCase (addresses ! i)) of
                Some c \<Rightarrow> c | None \<Rightarrow> toLowerCase (addresses ! i))"
proof -
  from assms have l: "list_all2 (\<lambda>a r. member_of r ''contractAddress'' =
     JStr (case getAddress env a of Some c \<Rightarrow> c | None \<Rightarrow> toLowerCase a))
     (map toLowerCase addresses) out"
    unfolding handleBatch_def Let_def by (rule resolve_all_records)
  then show "length out = length addresses" by (auto dest: list_all2_lengthD)
  assume "i < length addresses"
  then show "member_of (out ! i) ''contractAddress'' =
        JStr (case getAddress env (toLowerCase (addresses ! i)) of
                Some c \<Rightarrow> c | None \<Rightarrow> toLowerCase (addresses ! i))"
    using list_all2_nthD[OF l, of i] by (simp add: toLowerCase_idem split: option.splits)
qed

text \<open>
  An address (lowercased already, as the loop has it) for which the bulk record is empty
  and the on-chain source gives the all-null record: the symbol search is not asked, and
  the record has the address as its id and null for symbol, name and image.
\<close>

lemma resolve_one_no_data:
  assumes "tokenInfo_of ld slug a = Inr (JObj [])"
    and "fst (fetchOnChainNameSymbol env w a) = Inr null_record"
  shows "fst (resolve_one env w slug ld a) =
    Inr (JObj [(''id'', JStr (toLowerCase a)), (''symbol'', JNull), (''name'', JNull),
               (''image'', JNull),
               (''contractAddress'',
                  JStr (case getAddress env a of Some c \<Rightarrow> c | None \<Rightarrow> toLowerCase a))])"
  using assms
  by (simp add: resolve_one_def onchain_fill_def cg_fill_def seed_name_def seed_symbol_def
      seed_image_def js_or_def fill_from_def get_prop_def null_record_def Let_def
      formatTokenOutput_def normalizeAddress_def split: option.splits)

text \<open>
  C5, at an input where it fails. The bulk source answers the batch of two addresses with
  status 200 and the body \<open>null\<close>. \<open>fetchFromDefiLlama\<close> caches and returns \<open>null\<close>, the
  loop reads \<open>llamaData.coins\<close> outside any \<open>try\<close>, and \<open>handleBatch\<close> ends with a
  \<open>TypeError\<close>: the batch has no result at all, where the claim has two records.
\<close>

theorem handleBatch_null_payload:
  "fst (handleBatch env_null world0 [''0xAbC'', ''0xDeF''] (Some ''1'')) = Inl TypeError"
  by code_simp

text \<open>
  C6, at an input where it fails: the same body \<open>null\<close> from the bulk source, for the one
  address of a single lookup with the default chain. No record is returned, where the
  claim has one record with a contract address.
\<close>

theorem handleBatch_single_null_payload:
  "handleBatch env_null world0 [''0xa0b86991c6218b36c1d19d4a2e9eb0ce3606eb48''] None =
    (Inl TypeError,
     \<lparr>cache = [(''llama:ethereum:0xa0b86991c6218b36c1d19d4a2e9eb0ce3606eb48'', JNull, 2)],
      now = 2,
      calls = [Fetch ''https://coins.llama.fi/prices/current/ethereum:0xa0b86991c6218b36c1d19d4a2e9eb0ce3606eb48'']\<rparr>)"
  by code_simp

section \<open>The second run of a batch\<close>

subsection \<open>The order of use\<close>
















subsection \<open>The age of entries\<close>





subsection \<open>Lookups served from the cache\<close>









subsection \<open>Steps and their composition\<close>






lemma now_issue: "now w \<le> now (issue env w r)" and cache_issue: "cache (issue env w r) = cache w"
  by (simp_all add: issue_def)















subsection \<open>The steps of the loop\<close>


























subsection \<open>The requests of the first run\<close>





















subsection \<open>Lookups that are not cached\<close>




lemma cg_result_usdc_search: "\<exists>r. cg_result s usdc_search = Inr r \<and> r \<noteq> JNull"
proof -
  have l: "toLowerCase ''USDC'' = ''usdc''" by code_simp
  show ?thesis
    by (simp add: cg_result_def usdc_search_def get_prop_def opt_toLowerCase_def l js_or_def)
qed











lemma sources_up_env_own_symbol: "sources_up env_own_symbol"
  using cg_result_usdc_search
  by (simp add: sources_up_def env_own_symbol_def env_up_def usdc_search_def)



end
